theory Spec2Isabelle
  imports Complex_Main
begin

section \<open>Python values\<close>

text \<open>
  The program is a single Python module, \<^verbatim>\<open>app.py\<close>, that talks to a motor drive
  through a Modbus client object and answers six HTTP routes.

  Python integers are unbounded and are modelled as \<^typ>\<open>int\<close>.  A Python float is
  either a finite number, an infinity or a NaN.  Finite floats are embedded in the
  reals: comparisons, \<^verbatim>\<open>min\<close> and \<^verbatim>\<open>max\<close> are exact on them, and the rounding of
  \<^verbatim>\<open>/\<close> and \<^verbatim>\<open>*\<close> to the nearest binary64 value is not modelled.
\<close>

datatype pyfloat = Fin real | PInf | NInf | NaN

text \<open>Python's \<^verbatim>\<open>a < b\<close> on floats: every comparison with a NaN is false.\<close>

fun fl_less :: "pyfloat \<Rightarrow> pyfloat \<Rightarrow> bool" where
  "fl_less NaN _ = False"
| "fl_less _ NaN = False"
| "fl_less (Fin x) (Fin y) = (x < y)"
| "fl_less (Fin _) PInf = True"
| "fl_less (Fin _) NInf = False"
| "fl_less PInf _ = False"
| "fl_less NInf NInf = False"
| "fl_less NInf _ = True"

text \<open>
  The builtins \<^verbatim>\<open>min(a, b)\<close> and \<^verbatim>\<open>max(a, b)\<close> keep the first argument unless
  the second is strictly smaller (strictly larger).
\<close>

definition py_min :: "pyfloat \<Rightarrow> pyfloat \<Rightarrow> pyfloat" where
  "py_min a b = (if fl_less b a then b else a)"

definition py_max :: "pyfloat \<Rightarrow> pyfloat \<Rightarrow> pyfloat" where
  "py_max a b = (if fl_less a b then b else a)"

text \<open>The builtin \<^verbatim>\<open>round(x)\<close> on a finite float rounds half to even.\<close>

definition py_round :: "real \<Rightarrow> int" where
  "py_round x =
     (let f = \<lfloor>x\<rfloor>; d = x - of_int f
      in if d < 1 / 2 then f
         else if 1 / 2 < d then f + 1
         else if even f then f else f + 1)"

text \<open>Exceptions are values: \<open>Inl e\<close> is a raise, \<open>Inr v\<close> a normal result.\<close>

datatype py_exn =
    ZeroDivisionError | OverflowError | ValueError | IndexError | KeyError
  | TransportError

type_synonym 'a outcome = "py_exn + 'a"

section \<open>Configuration\<close>

text \<open>
  \<^verbatim>\<open>CFG\<close> is loaded once from \<^verbatim>\<open>config.json\<close>.  The serial parameters only reach
  the client's constructor and are left out; the fields the functions below read are
  kept under their JSON names.
\<close>

record config =
  unit_id :: int
  limits_hz_min :: real
  limits_hz_max :: real
  base_freq_hz :: real
  rated_current_a :: "real option"
  regs_freq_set :: int
  regs_freq_fb :: int
  regs_current_fb :: int
  regs_status :: int
  regs_fault :: int
  regs_cmd :: int

section \<open>Utilities\<close>

definition clamp_hz :: "config \<Rightarrow> pyfloat \<Rightarrow> pyfloat" where
  "clamp_hz cfg hz =
     (let lo = Fin (limits_hz_min cfg); hi = Fin (limits_hz_max cfg)
      in py_max lo (py_min hi hz))"

text \<open>
  \<^verbatim>\<open>int(round((hz / base) * 10000.0))\<close>.  Float division by zero raises whatever the
  numerator is; an infinite quotient stays infinite and \<^verbatim>\<open>round\<close> raises
  OverflowError on it, and ValueError on a NaN.
\<close>

definition pct10k_from_hz :: "config \<Rightarrow> pyfloat \<Rightarrow> int outcome" where
  "pct10k_from_hz cfg hz =
     (let base = base_freq_hz cfg
      in if base = 0 then Inl ZeroDivisionError
         else case hz of
                Fin x \<Rightarrow> Inr (py_round ((x / base) * 10000))
              | NaN \<Rightarrow> Inl ValueError
              | _ \<Rightarrow> Inl OverflowError)"

section \<open>Text formatting\<close>

text \<open>\<^verbatim>\<open>str(n)\<close> for an integer: decimal digits, with a minus sign when negative.\<close>

definition digit_char :: "nat \<Rightarrow> char" where
  "digit_char d = ''0123456789'' ! (d mod 10)"

fun str_nat :: "nat \<Rightarrow> string" where
  "str_nat n =
     (if n < 10 then [digit_char n] else str_nat (n div 10) @ [digit_char (n mod 10)])"

declare str_nat.simps [simp del]

definition str_int :: "int \<Rightarrow> string" where
  "str_int i = (if i < 0 then ''-'' @ str_nat (nat (- i)) else str_nat (nat i))"

text \<open>
  The format specification \<^verbatim>\<open>:.2f\<close>: the value rounded to two decimals (half to
  even on the exact value), the sign taken from the value before rounding.
\<close>

definition fmt_2f :: "pyfloat \<Rightarrow> string" where
  "fmt_2f v =
     (case v of
        Fin x \<Rightarrow>
          (let n = nat (py_round (\<bar>x\<bar> * 100))
           in (if x < 0 then ''-'' else []) @ str_nat (n div 100) @ ''.''
              @ [digit_char ((n div 10) mod 10), digit_char (n mod 10)])
      | PInf \<Rightarrow> ''inf''
      | NInf \<Rightarrow> ''-inf''
      | NaN \<Rightarrow> ''nan'')"

section \<open>The Modbus client\<close>

text \<open>
  \<^verbatim>\<open>mclient()\<close> builds a fresh pymodbus client for every transaction.  The client
  is outside the program, so it is modelled by what each of its four methods does
  when called: return a value or raise.  A response object is \<^verbatim>\<open>None\<close>, an error
  response (\<^verbatim>\<open>isError()\<close> is true) or a good response carrying its
  \<^verbatim>\<open>registers\<close>.
\<close>

datatype response = RNone | RError | ROk "int list"

record client =
  on_connect :: "bool outcome"
  on_read :: "int \<Rightarrow> int \<Rightarrow> int \<Rightarrow> response outcome"
  on_write :: "int \<Rightarrow> int \<Rightarrow> int \<Rightarrow> response outcome"
  on_close :: "unit outcome"

text \<open>The calls made on clients are logged in order, with their arguments
  (address, count or value, device id).\<close>

datatype event =
    Connect
  | ReadHolding int int int
  | WriteRegister int int int
  | Close

type_synonym 'a io = "'a outcome \<times> event list"

definition ret :: "'a \<Rightarrow> 'a io" where
  "ret v = (Inr v, [])"

definition raise :: "py_exn \<Rightarrow> 'a io" where
  "raise e = (Inl e, [])"

definition bind_io :: "'a io \<Rightarrow> ('a \<Rightarrow> 'b io) \<Rightarrow> 'b io" where
  "bind_io m f =
     (case m of
        (Inl e, t) \<Rightarrow> (Inl e, t)
      | (Inr v, t) \<Rightarrow> (case f v of (r, t') \<Rightarrow> (r, t @ t')))"

text \<open>\<^verbatim>\<open>try: body  except Exception: handler\<close> (and the bare \<^verbatim>\<open>except:\<close>).\<close>

definition try_except :: "'a io \<Rightarrow> 'a io \<Rightarrow> 'a io" where
  "try_except body handler =
     (case body of
        (Inl e, t) \<Rightarrow> (case handler of (r, t') \<Rightarrow> (r, t @ t'))
      | (Inr v, t) \<Rightarrow> (Inr v, t))"

text \<open>
  \<^verbatim>\<open>try: body  finally: fin\<close>: the final block always runs; when it raises, its
  exception replaces the outcome of the body, otherwise the body's outcome stands.
\<close>

definition try_finally :: "'a io \<Rightarrow> unit io \<Rightarrow> 'a io" where
  "try_finally body fin =
     (case body of (r, t) \<Rightarrow>
        (case fin of
           (Inl e, t') \<Rightarrow> (Inl e, t @ t')
         | (Inr _, t') \<Rightarrow> (r, t @ t')))"

definition call_connect :: "client \<Rightarrow> bool io" where
  "call_connect c = (on_connect c, [Connect])"

definition call_read :: "client \<Rightarrow> int \<Rightarrow> int \<Rightarrow> int \<Rightarrow> response io" where
  "call_read c addr count dev = (on_read c addr count dev, [ReadHolding addr count dev])"

definition call_write :: "client \<Rightarrow> int \<Rightarrow> int \<Rightarrow> int \<Rightarrow> response io" where
  "call_write c addr val dev = (on_write c addr val dev, [WriteRegister addr val dev])"

definition call_close :: "client \<Rightarrow> unit io" where
  "call_close c = (on_close c, [Close])"

section \<open>Modbus helpers\<close>

text \<open>The argument \<open>c\<close> is the client that \<^verbatim>\<open>mclient()\<close> returned for this call.\<close>

definition read_regs :: "config \<Rightarrow> client \<Rightarrow> int \<Rightarrow> int \<Rightarrow> int list option io" where
  "read_regs cfg c addr count =
     try_finally
       (try_except
          (bind_io (call_connect c) (\<lambda>ok.
             if \<not> ok then ret None
             else bind_io (call_read c addr count (unit_id cfg)) (\<lambda>rr.
                    case rr of
                      RNone \<Rightarrow> ret None
                    | RError \<Rightarrow> ret None
                    | ROk registers \<Rightarrow> ret (Some registers))))
          (ret None))
       (try_except (call_close c) (ret ()))"

definition write_reg :: "config \<Rightarrow> client \<Rightarrow> int \<Rightarrow> int \<Rightarrow> bool io" where
  "write_reg cfg c addr val =
     try_finally
       (try_except
          (bind_io (call_connect c) (\<lambda>ok.
             if \<not> ok then ret False
             else bind_io (call_write c addr val (unit_id cfg)) (\<lambda>rq.
                    ret (rq \<noteq> RNone \<and> rq \<noteq> RError))))
          (ret False))
       (try_except (call_close c) (ret ()))"

section \<open>Data reads\<close>

text \<open>\<^verbatim>\<open>regs[0]\<close> raises IndexError on an empty list.\<close>

definition first_reg :: "int list \<Rightarrow> int io" where
  "first_reg regs = (case regs of [] \<Rightarrow> raise IndexError | r # _ \<Rightarrow> ret r)"

definition read_freq_cmd :: "config \<Rightarrow> client \<Rightarrow> real option io" where
  "read_freq_cmd cfg c =
     bind_io (read_regs cfg c (regs_freq_set cfg) 1) (\<lambda>regs.
       case regs of
         None \<Rightarrow> ret None
       | Some rs \<Rightarrow> bind_io (first_reg rs) (\<lambda>pct10k.
           ret (Some ((of_int pct10k / 10000) * base_freq_hz cfg))))"

definition read_freq_hz :: "config \<Rightarrow> client \<Rightarrow> real option io" where
  "read_freq_hz cfg c =
     bind_io (read_regs cfg c (regs_freq_fb cfg) 1) (\<lambda>regs.
       case regs of
         None \<Rightarrow> ret None
       | Some rs \<Rightarrow> bind_io (first_reg rs) (\<lambda>r. ret (Some (of_int r / 100))))"

definition read_current_a :: "config \<Rightarrow> client \<Rightarrow> real option io" where
  "read_current_a cfg c =
     bind_io (read_regs cfg c (regs_current_fb cfg) 1) (\<lambda>regs.
       case regs of
         None \<Rightarrow> ret None
       | Some rs \<Rightarrow> bind_io (first_reg rs) (\<lambda>raw.
           ret (Some (if raw > 200 then of_int raw / 100 else of_int raw))))"

text \<open>The lookup \<^verbatim>\<open>{1: ..., 2: ..., 3: ...}.get(raw, f"STATE {raw}")\<close>.\<close>

definition status_text :: "int \<Rightarrow> string" where
  "status_text raw =
     (case map_of [(1, ''RUN FWD''), (2, ''RUN REV''), (3, ''STOP'')] raw of
        Some s \<Rightarrow> s
      | None \<Rightarrow> ''STATE '' @ str_int raw)"

definition read_status_text :: "config \<Rightarrow> client \<Rightarrow> string io" where
  "read_status_text cfg c =
     bind_io (read_regs cfg c (regs_status cfg) 1) (\<lambda>regs.
       case regs of
         None \<Rightarrow> ret ''No comm''
       | Some rs \<Rightarrow> bind_io (first_reg rs) (\<lambda>raw. ret (status_text raw)))"

definition read_fault :: "config \<Rightarrow> client \<Rightarrow> int option io" where
  "read_fault cfg c =
     bind_io (read_regs cfg c (regs_fault cfg) 1) (\<lambda>regs.
       case regs of
         None \<Rightarrow> ret None
       | Some rs \<Rightarrow> bind_io (first_reg rs) (\<lambda>r. ret (Some r)))"

section \<open>Web routes\<close>

text \<open>
  A route answers with a JSON document, the rendered page, or a redirect to the index
  page after flashing one message.  Routes that run several transactions get the
  clients from \<open>w\<close>: \<open>w i\<close> is what the \<open>i\<close>-th call of \<^verbatim>\<open>mclient()\<close> in the
  request returns.
\<close>

record status_data =
  d_status :: string
  d_fault :: "int option"
  d_freq_cmd :: "real option"
  d_freq_act :: "real option"
  d_amps :: "real option"

record page_ctx =
  p_freq_cmd :: "real option"
  p_freq_act :: "real option"
  p_amps :: "real option"
  p_ratedA :: real
  p_status :: string
  p_fault :: "int option"
  p_minHz :: real
  p_maxHz :: real
  p_sliderHz :: real

datatype reply = Json status_data | Page page_ctx | Redirect string



definition start :: "config \<Rightarrow> client \<Rightarrow> reply io" where
  "start cfg c =
     bind_io (write_reg cfg c (regs_cmd cfg) 1) (\<lambda>ok.
       ret (Redirect (''START '' @ (if ok then ''OK'' else ''FAILED''))))"

definition stop :: "config \<Rightarrow> client \<Rightarrow> reply io" where
  "stop cfg c =
     bind_io (write_reg cfg c (regs_cmd cfg) 6) (\<lambda>ok.
       ret (Redirect (''STOP '' @ (if ok then ''OK'' else ''FAILED''))))"

definition reset :: "config \<Rightarrow> client \<Rightarrow> reply io" where
  "reset cfg c =
     bind_io (write_reg cfg c (regs_cmd cfg) 7) (\<lambda>ok.
       ret (Redirect (''RESET '' @ (if ok then ''OK'' else ''FAILED''))))"

text \<open>
  \<^verbatim>\<open>float(request.form["freq"])\<close>: the form may lack the field (a KeyError), and the
  builtin \<^verbatim>\<open>float\<close> raises ValueError on text that is no number.  The builtin is
  not part of the program: it is the parameter \<open>float_of\<close>, with \<open>None\<close> for the
  ValueError.
\<close>

definition form_freq :: "(string \<Rightarrow> pyfloat option) \<Rightarrow> string option \<Rightarrow> pyfloat outcome" where
  "form_freq float_of form =
     (case form of
        None \<Rightarrow> Inl KeyError
      | Some txt \<Rightarrow> (case float_of txt of None \<Rightarrow> Inl ValueError | Some hz \<Rightarrow> Inr hz))"

definition setfreq ::
  "config \<Rightarrow> (string \<Rightarrow> pyfloat option) \<Rightarrow> client \<Rightarrow> string option \<Rightarrow> reply io" where
  "setfreq cfg float_of c form =
     (case form_freq float_of form of
        Inl _ \<Rightarrow> ret (Redirect ''Invalid frequency'')
      | Inr hz0 \<Rightarrow>
          (let hz = clamp_hz cfg hz0
           in bind_io (pct10k_from_hz cfg hz, []) (\<lambda>value.
              bind_io (write_reg cfg c (regs_freq_set cfg) value) (\<lambda>ok.
                ret (Redirect
                  (if ok then ''Set '' @ fmt_2f hz @ '' Hz (cmd='' @ str_int value @ '')''
                   else ''Write failed''))))))"




section \<open>Python comparisons used in the statements\<close>

text \<open>Python's \<^verbatim>\<open>a <= b\<close> on floats; false as soon as one side is a NaN.\<close>

definition fl_le :: "pyfloat \<Rightarrow> pyfloat \<Rightarrow> bool" where
  "fl_le a b = (a \<noteq> NaN \<and> b \<noteq> NaN \<and> \<not> fl_less b a)"

section \<open>Test fixtures\<close>

text \<open>
  A configuration with the limits of the documented scenario (25 to 50 Hz on a 50 Hz
  base), a device that acknowledges everything and answers every read with the given
  registers, and a serial port that cannot be opened.
\<close>

definition example_cfg :: config where
  "example_cfg =
     \<lparr>unit_id = 1, limits_hz_min = 25, limits_hz_max = 50, base_freq_hz = 50,
      rated_current_a = None, regs_freq_set = 4096, regs_freq_fb = 4097,
      regs_current_fb = 4100, regs_status = 12288, regs_fault = 32768,
      regs_cmd = 8192\<rparr>"

definition ok_client :: "int list \<Rightarrow> client" where
  "ok_client rs =
     \<lparr>on_connect = Inr True,
      on_read = (\<lambda>_ _ _. Inr (ROk rs)),
      on_write = (\<lambda>_ _ _. Inr (ROk [])),
      on_close = Inr ()\<rparr>"

definition down_client :: client where
  "down_client =
     \<lparr>on_connect = Inr False,
      on_read = (\<lambda>_ _ _. Inl TransportError),
      on_write = (\<lambda>_ _ _. Inl TransportError),
      on_close = Inl TransportError\<rparr>"

section \<open>Properties\<close>

subsection \<open>What one transaction does\<close>

lemmas io_defs = ret_def raise_def bind_io_def try_except_def try_finally_def
  call_connect_def call_read_def call_write_def call_close_def

lemma read_regs_eq:
  "read_regs cfg c addr count =
     (Inr (case on_connect c of
             Inr True \<Rightarrow> (case on_read c addr count (unit_id cfg) of
                             Inr (ROk rs) \<Rightarrow> Some rs | _ \<Rightarrow> None)
           | _ \<Rightarrow> None),
      Connect # (if on_connect c = Inr True then [ReadHolding addr count (unit_id cfg)] else [])
        @ [Close])"
  by (simp add: read_regs_def io_defs split: sum.splits response.splits bool.splits)

lemma write_reg_eq:
  "write_reg cfg c addr val =
     (Inr (case on_connect c of
             Inr True \<Rightarrow> (case on_write c addr val (unit_id cfg) of
                             Inr (ROk rs) \<Rightarrow> True | _ \<Rightarrow> False)
           | _ \<Rightarrow> False),
      Connect # (if on_connect c = Inr True then [WriteRegister addr val (unit_id cfg)] else [])
        @ [Close])"
  by (simp add: write_reg_def io_defs split: sum.splits response.splits bool.splits)

subsection \<open>Clamping\<close>

text \<open>
  Claim C2.  With \<open>min \<le> max\<close> in the configuration, \<open>clamp_hz\<close> returns exactly
  the lower limit for a frequency below it, exactly the upper limit for a frequency
  above it, and the frequency itself when it lies inside the band.  The frequency
  ranges over all floats, the infinities and NaN included (a NaN is neither below,
  above nor inside).
\<close>

theorem clamp_hz_band:
  assumes "limits_hz_min cfg \<le> limits_hz_max cfg"
  shows "(fl_less hz (Fin (limits_hz_min cfg)) \<longrightarrow> clamp_hz cfg hz = Fin (limits_hz_min cfg))
       \<and> (fl_less (Fin (limits_hz_max cfg)) hz \<longrightarrow> clamp_hz cfg hz = Fin (limits_hz_max cfg))
       \<and> (fl_le (Fin (limits_hz_min cfg)) hz \<and> fl_le hz (Fin (limits_hz_max cfg))
            \<longrightarrow> clamp_hz cfg hz = hz)"
  using assms
  by (cases hz) (auto simp: clamp_hz_def py_max_def py_min_def fl_le_def Let_def)

theorem clamp_hz_band_witness:
  "limits_hz_min example_cfg \<le> limits_hz_max example_cfg
   \<and> fl_less (Fin 10) (Fin (limits_hz_min example_cfg))
   \<and> clamp_hz example_cfg (Fin 10) = Fin 25
   \<and> fl_less (Fin (limits_hz_max example_cfg)) (Fin 60)
   \<and> clamp_hz example_cfg (Fin 60) = Fin 50
   \<and> fl_less (Fin (limits_hz_max example_cfg)) PInf
   \<and> clamp_hz example_cfg PInf = Fin 50
   \<and> fl_le (Fin (limits_hz_min example_cfg)) (Fin 30)
   \<and> fl_le (Fin 30) (Fin (limits_hz_max example_cfg))
   \<and> clamp_hz example_cfg (Fin 30) = Fin 30"
  using clamp_hz_band [of example_cfg "Fin 10"] clamp_hz_band [of example_cfg "Fin 60"]
    clamp_hz_band [of example_cfg PInf] clamp_hz_band [of example_cfg "Fin 30"]
  by (simp add: example_cfg_def fl_le_def)

subsection \<open>The connection is always closed\<close>

text \<open>
  Claim C6.  Whatever the client does (return or raise, in \<open>connect\<close>, in the
  transaction and in \<open>close\<close>), \<open>read_regs\<close> and \<open>write_reg\<close> return normally,
  \<open>close\<close> is their last call on the client and happens once, and their result does
  not depend on what \<open>close\<close> does.
\<close>

theorem transport_always_closes:
  "(\<exists>r pre. read_regs cfg c addr count = (Inr r, pre @ [Close]) \<and> Close \<notin> set pre)
   \<and> fst (read_regs cfg (c\<lparr>on_close := k\<rparr>) addr count) = fst (read_regs cfg c addr count)
   \<and> (\<exists>ok pre. write_reg cfg c addr val = (Inr ok, pre @ [Close]) \<and> Close \<notin> set pre)
   \<and> fst (write_reg cfg (c\<lparr>on_close := k\<rparr>) addr val) = fst (write_reg cfg c addr val)"
  by (simp add: read_regs_eq write_reg_eq split: sum.splits bool.splits)

subsection \<open>A port that cannot be opened\<close>

text \<open>
  Claim C4.  When \<open>connect\<close> does not succeed (it returns false or raises), every
  read returns \<open>None\<close>, the status text is exactly \<open>No comm\<close>, the register write
  returns false and the three commands report failure; all of them return normally,
  and the only calls made on the client are \<open>connect\<close> and \<open>close\<close>.
\<close>

theorem no_comm_when_connect_fails:
  assumes "on_connect c \<noteq> Inr True"
  shows "read_regs cfg c addr count = (Inr None, [Connect, Close])
       \<and> read_freq_cmd cfg c = (Inr None, [Connect, Close])
       \<and> read_freq_hz cfg c = (Inr None, [Connect, Close])
       \<and> read_current_a cfg c = (Inr None, [Connect, Close])
       \<and> read_fault cfg c = (Inr None, [Connect, Close])
       \<and> read_status_text cfg c = (Inr ''No comm'', [Connect, Close])
       \<and> write_reg cfg c addr val = (Inr False, [Connect, Close])
       \<and> start cfg c = (Inr (Redirect ''START FAILED''), [Connect, Close])
       \<and> stop cfg c = (Inr (Redirect ''STOP FAILED''), [Connect, Close])
       \<and> reset cfg c = (Inr (Redirect ''RESET FAILED''), [Connect, Close])"
proof -
  have r: "read_regs cfg c a n = (Inr None, [Connect, Close])" for a n
    using assms by (simp add: read_regs_eq split: sum.splits bool.splits)
  have w: "write_reg cfg c a v = (Inr False, [Connect, Close])" for a v
    using assms by (simp add: write_reg_eq split: sum.splits bool.splits)
  show ?thesis
    by (simp add: r w read_freq_cmd_def read_freq_hz_def read_current_a_def read_fault_def
        read_status_text_def start_def stop_def reset_def bind_io_def ret_def)
qed

theorem no_comm_when_connect_fails_witness:
  "on_connect down_client \<noteq> Inr True
   \<and> read_freq_hz example_cfg down_client = (Inr None, [Connect, Close])
   \<and> read_status_text example_cfg down_client = (Inr ''No comm'', [Connect, Close])
   \<and> start example_cfg down_client = (Inr (Redirect ''START FAILED''), [Connect, Close])"
  using no_comm_when_connect_fails [of down_client example_cfg 0 0 0]
  by (simp add: down_client_def)

subsection \<open>A device that answers\<close>

lemma read_regs_ok:
  assumes "on_connect c = Inr True" "on_read c addr count (unit_id cfg) = Inr (ROk rs)"
  shows "read_regs cfg c addr count =
           (Inr (Some rs), [Connect, ReadHolding addr count (unit_id cfg), Close])"
  using assms by (simp add: read_regs_eq)

lemma bind_io_pure: "bind_io (Inr v, []) f = f v"
  by (simp add: bind_io_def split: prod.splits)

subsection \<open>Current feedback\<close>

text \<open>
  Claim C7.  When the read of the current register succeeds with raw value \<open>raw\<close>,
  \<open>read_current_a\<close> returns \<open>raw / 100\<close> for every \<open>raw > 200\<close> and \<open>raw\<close> itself
  (as a float) for every \<open>raw \<le> 200\<close>: 200 gives 200.0 and 201 gives 2.01.
\<close>

theorem read_current_a_scale:
  assumes "on_connect c = Inr True"
    and "on_read c (regs_current_fb cfg) 1 (unit_id cfg) = Inr (ROk (raw # rest))"
  shows "fst (read_current_a cfg c)
           = Inr (Some (if raw > 200 then of_int raw / 100 else of_int raw))
       \<and> (raw = 200 \<longrightarrow> fst (read_current_a cfg c) = Inr (Some 200))
       \<and> (raw = 201 \<longrightarrow> fst (read_current_a cfg c) = Inr (Some 2.01))"
  by (simp add: read_current_a_def read_regs_ok [OF assms] first_reg_def bind_io_def ret_def)

theorem read_current_a_scale_witness:
  "on_connect (ok_client [200]) = Inr True
   \<and> on_read (ok_client [200]) (regs_current_fb example_cfg) 1 (unit_id example_cfg)
       = Inr (ROk [200])
   \<and> fst (read_current_a example_cfg (ok_client [200])) = Inr (Some 200)
   \<and> on_connect (ok_client [201]) = Inr True
   \<and> on_read (ok_client [201]) (regs_current_fb example_cfg) 1 (unit_id example_cfg)
       = Inr (ROk [201])
   \<and> fst (read_current_a example_cfg (ok_client [201])) = Inr (Some 2.01)"
  using read_current_a_scale [of "ok_client [200]" example_cfg 200 "[]"]
    read_current_a_scale [of "ok_client [201]" example_cfg 201 "[]"]
  by (simp add: ok_client_def)

subsection \<open>Status text\<close>

text \<open>
  Claim C8.  When the read of the status register succeeds with raw value \<open>raw\<close>,
  \<open>read_status_text\<close> returns normally for every \<open>raw\<close>: 1 gives \<open>RUN FWD\<close>,
  2 gives \<open>RUN REV\<close>, 3 gives \<open>STOP\<close> and any other value gives \<open>STATE\<close>
  followed by the value in decimal; 9 gives \<open>STATE 9\<close>.
\<close>

theorem read_status_text_decode:
  assumes "on_connect c = Inr True"
    and "on_read c (regs_status cfg) 1 (unit_id cfg) = Inr (ROk (raw # rest))"
  shows "fst (read_status_text cfg c)
           = Inr (if raw = 1 then ''RUN FWD'' else if raw = 2 then ''RUN REV''
                  else if raw = 3 then ''STOP'' else ''STATE '' @ str_int raw)
       \<and> (raw = 9 \<longrightarrow> fst (read_status_text cfg c) = Inr ''STATE 9'')"
  by (simp add: read_status_text_def read_regs_ok [OF assms] first_reg_def bind_io_def ret_def
      status_text_def str_int_def str_nat.simps digit_char_def)

theorem read_status_text_decode_witness:
  "on_connect (ok_client [9]) = Inr True
   \<and> on_read (ok_client [9]) (regs_status example_cfg) 1 (unit_id example_cfg) = Inr (ROk [9])
   \<and> fst (read_status_text example_cfg (ok_client [9])) = Inr ''STATE 9''
   \<and> fst (read_status_text example_cfg (ok_client [1])) = Inr ''RUN FWD''
   \<and> fst (read_status_text example_cfg (ok_client [2])) = Inr ''RUN REV''
   \<and> fst (read_status_text example_cfg (ok_client [3])) = Inr ''STOP''"
  using read_status_text_decode [of "ok_client [9]" example_cfg 9 "[]"]
    read_status_text_decode [of "ok_client [1]" example_cfg 1 "[]"]
    read_status_text_decode [of "ok_client [2]" example_cfg 2 "[]"]
    read_status_text_decode [of "ok_client [3]" example_cfg 3 "[]"]
  by (simp add: ok_client_def str_int_def str_nat.simps digit_char_def)

subsection \<open>Setting the frequency\<close>

text \<open>
  Claim C9.  When the form has no frequency field or its text is not accepted by
  \<^verbatim>\<open>float\<close>, \<open>setfreq\<close> flashes \<open>Invalid frequency\<close> and redirects, whatever the
  configuration and the client are: no call is made on the client, so nothing is
  written to the device, and the conversion of the frequency is never reached (the
  reply is the same for a base frequency of zero, where the conversion would raise).
\<close>

theorem setfreq_rejects_unparsable:
  assumes "form = None \<or> (\<exists>txt. form = Some txt \<and> float_of txt = None)"
  shows "setfreq cfg float_of c form = (Inr (Redirect ''Invalid frequency''), [])"
  using assms by (auto simp: setfreq_def form_freq_def ret_def)

theorem setfreq_rejects_unparsable_witness:
  "(Some ''fast'' = None
      \<or> (\<exists>txt. Some ''fast'' = Some txt
            \<and> (\<lambda>s. if s = ''60'' then Some (Fin 60) else None) txt = None))
   \<and> setfreq example_cfg (\<lambda>s. if s = ''60'' then Some (Fin 60) else None)
        (ok_client []) (Some ''fast'')
       = (Inr (Redirect ''Invalid frequency''), [])"
  using setfreq_rejects_unparsable
    [of "Some ''fast''" "\<lambda>s. if s = ''60'' then Some (Fin 60) else None"
        example_cfg "ok_client []"]
  by simp

text \<open>
  Claim C1.  With limits of 25 and 50 Hz and a base of 50 Hz, a request whose text
  parses to 60.0 is clamped to 50, converted to the raw value 10000 and handed to
  \<open>write_reg\<close> for the frequency register with the value 10000; \<open>setfreq\<close> is
  exactly that write followed by the flash.  When the port opens and the device
  acknowledges, the write request on the wire carries 10000 and the message is
  \<open>Set 50.00 Hz (cmd=10000)\<close>; a write that fails gives \<open>Write failed\<close>.
\<close>

theorem setfreq_60_scenario:
  assumes "limits_hz_min cfg = 25" and "limits_hz_max cfg = 50" and "base_freq_hz cfg = 50"
    and "float_of txt = Some (Fin 60)"
  shows "clamp_hz cfg (Fin 60) = Fin 50
       \<and> pct10k_from_hz cfg (Fin 50) = Inr 10000
       \<and> setfreq cfg float_of c (Some txt)
           = bind_io (write_reg cfg c (regs_freq_set cfg) 10000) (\<lambda>ok.
               ret (Redirect (if ok then ''Set 50.00 Hz (cmd=10000)'' else ''Write failed'')))
       \<and> (on_connect c = Inr True
            \<and> (\<exists>rs. on_write c (regs_freq_set cfg) 10000 (unit_id cfg) = Inr (ROk rs))
          \<longrightarrow> setfreq cfg float_of c (Some txt)
                = (Inr (Redirect ''Set 50.00 Hz (cmd=10000)''),
                   [Connect, WriteRegister (regs_freq_set cfg) 10000 (unit_id cfg), Close]))"
proof -
  have cl: "clamp_hz cfg (Fin 60) = Fin 50"
    using assms by (simp add: clamp_hz_def py_max_def py_min_def)
  have enc: "pct10k_from_hz cfg (Fin 50) = Inr 10000"
    using assms by (simp add: pct10k_from_hz_def py_round_def)
  have fmt: "fmt_2f (Fin 50) = ''50.00''"
    by (simp add: fmt_2f_def py_round_def str_nat.simps digit_char_def)
  have str: "str_int 10000 = ''10000''"
    by (simp add: str_int_def str_nat.simps digit_char_def)
  have run: "setfreq cfg float_of c (Some txt)
           = bind_io (write_reg cfg c (regs_freq_set cfg) 10000) (\<lambda>ok.
               ret (Redirect (if ok then ''Set 50.00 Hz (cmd=10000)'' else ''Write failed'')))"
    using assms(4)
    by (simp add: setfreq_def form_freq_def cl enc fmt str bind_io_pure cong: if_cong)
  show ?thesis
    by (auto simp: cl enc run write_reg_eq bind_io_def ret_def)
qed

theorem setfreq_60_scenario_witness:
  "limits_hz_min example_cfg = 25 \<and> limits_hz_max example_cfg = 50
   \<and> base_freq_hz example_cfg = 50
   \<and> (\<lambda>s. if s = ''60'' then Some (Fin 60) else None) ''60'' = Some (Fin 60)
   \<and> on_connect (ok_client []) = Inr True
   \<and> (\<exists>rs. on_write (ok_client []) (regs_freq_set example_cfg) 10000 (unit_id example_cfg)
             = Inr (ROk rs))
   \<and> setfreq example_cfg (\<lambda>s. if s = ''60'' then Some (Fin 60) else None)
        (ok_client []) (Some ''60'')
       = (Inr (Redirect ''Set 50.00 Hz (cmd=10000)''),
          [Connect, WriteRegister 4096 10000 1, Close])"
proof -
  have lo: "limits_hz_min example_cfg = 25" and hi: "limits_hz_max example_cfg = 50"
    and base: "base_freq_hz example_cfg = 50"
    by (simp_all add: example_cfg_def)
  have parse: "(\<lambda>s. if s = ''60'' then Some (Fin 60) else None) ''60'' = Some (Fin 60)"
    by simp
  have conn: "on_connect (ok_client []) = Inr True"
    by (simp add: ok_client_def)
  have ack: "\<exists>rs. on_write (ok_client []) (regs_freq_set example_cfg) 10000
                 (unit_id example_cfg) = Inr (ROk rs)"
    by (simp add: ok_client_def)
  have addr: "regs_freq_set example_cfg = 4096" "unit_id example_cfg = 1"
    by (simp_all add: example_cfg_def)
  from setfreq_60_scenario
         [of example_cfg "\<lambda>s. if s = ''60'' then Some (Fin 60) else None" "''60''"
             "ok_client []", OF lo hi base parse]
       conn ack
  have "setfreq example_cfg (\<lambda>s. if s = ''60'' then Some (Fin 60) else None)
          (ok_client []) (Some ''60'')
        = (Inr (Redirect ''Set 50.00 Hz (cmd=10000)''),
           [Connect, WriteRegister (regs_freq_set example_cfg) 10000 (unit_id example_cfg),
            Close])"
    by blast
  with lo hi base parse conn ack addr show ?thesis
    by simp
qed

subsection \<open>The frequency command register\<close>


lemma read_freq_cmd_ok:
  assumes "on_connect c = Inr True"
    and "on_read c (regs_freq_set cfg) 1 (unit_id cfg) = Inr (ROk (raw # rest))"
  shows "fst (read_freq_cmd cfg c) = Inr (Some (of_int raw / 10000 * base_freq_hz cfg))"
  by (simp add: read_freq_cmd_def read_regs_ok [OF assms] first_reg_def bind_io_def ret_def)

text \<open>
  Claim C10, as amended.  The register is used as the client returns it, an
  unsigned value: for \<open>0 \<le> raw \<le> 65535\<close> and a positive base frequency
  \<open>read_freq_cmd\<close> returns \<open>raw / 10000 * base\<close>, which is never negative; a value
  of 32768 or more gives at least \<open>3.2768 * base\<close>, and strictly more for a value
  above 32768.
\<close>

theorem read_freq_cmd_unsigned:
  assumes "0 \<le> raw" and "raw \<le> 65535" and "0 < base_freq_hz cfg"
    and "on_connect c = Inr True"
    and "on_read c (regs_freq_set cfg) 1 (unit_id cfg) = Inr (ROk (raw # rest))"
  shows "fst (read_freq_cmd cfg c) = Inr (Some (of_int raw / 10000 * base_freq_hz cfg))
       \<and> 0 \<le> of_int raw / 10000 * base_freq_hz cfg
       \<and> (32768 \<le> raw \<longrightarrow> 3.2768 * base_freq_hz cfg \<le> of_int raw / 10000 * base_freq_hz cfg)
       \<and> (32768 < raw \<longrightarrow> 3.2768 * base_freq_hz cfg < of_int raw / 10000 * base_freq_hz cfg)"
proof -
  have "0 \<le> (of_int raw :: real) / 10000"
    using assms(1) by simp
  then have nonneg: "0 \<le> of_int raw / 10000 * base_freq_hz cfg"
    using assms(3) by simp
  have ge: "3.2768 * base_freq_hz cfg \<le> of_int raw / 10000 * base_freq_hz cfg"
    if "32768 \<le> raw"
  proof -
    from that have "(3.2768 :: real) \<le> of_int raw / 10000" by simp
    then show ?thesis using assms(3) by simp
  qed
  have gt: "3.2768 * base_freq_hz cfg < of_int raw / 10000 * base_freq_hz cfg"
    if "32768 < raw"
  proof -
    from that have "(3.2768 :: real) < of_int raw / 10000" by simp
    then show ?thesis using assms(3) by simp
  qed
  show ?thesis
    using read_freq_cmd_ok [OF assms(4,5)] nonneg ge gt by simp
qed

theorem read_freq_cmd_unsigned_witness:
  "(0::int) \<le> 40000 \<and> (40000::int) \<le> 65535 \<and> 0 < base_freq_hz example_cfg
   \<and> on_connect (ok_client [40000]) = Inr True
   \<and> on_read (ok_client [40000]) (regs_freq_set example_cfg) 1 (unit_id example_cfg)
       = Inr (ROk [40000])
   \<and> (32768::int) < 40000
   \<and> fst (read_freq_cmd example_cfg (ok_client [40000])) = Inr (Some 200)
   \<and> 3.2768 * base_freq_hz example_cfg < (200::real)"
proof -
  have base: "0 < base_freq_hz example_cfg" "base_freq_hz example_cfg = 50"
    by (simp_all add: example_cfg_def)
  have conn: "on_connect (ok_client [40000]) = Inr True"
    and rd: "on_read (ok_client [40000]) (regs_freq_set example_cfg) 1 (unit_id example_cfg)
              = Inr (ROk [40000])"
    by (simp_all add: ok_client_def)
  from read_freq_cmd_unsigned [of 40000 example_cfg "ok_client [40000]" "[]", OF _ _ base(1) conn rd]
  have "fst (read_freq_cmd example_cfg (ok_client [40000]))
          = Inr (Some (of_int 40000 / 10000 * base_freq_hz example_cfg))"
    by simp
  with base conn rd show ?thesis by simp
qed

text \<open>
  At the raw value 32768 itself the result is \<open>3.2768 * base\<close> and not above it:
  with a base of 50 Hz it is 163.84 Hz.
\<close>

theorem read_freq_cmd_32768_counterexample:
  "fst (read_freq_cmd example_cfg (ok_client [32768])) = Inr (Some 163.84)
   \<and> \<not> (3.2768 * base_freq_hz example_cfg < (163.84::real))"
  by (simp add: read_freq_cmd_def read_regs_eq ok_client_def first_reg_def bind_io_def ret_def
      example_cfg_def)



subsection \<open>The command register\<close>














end
